theory Spec2Isabelle
  imports Main
begin

section \<open>Values, classes and instances\<close>

text \<open>
  The repository is one module, \<^verbatim>\<open>jaraco/classes/properties.py\<close>, with two descriptor
  classes: \<^verbatim>\<open>NonDataProperty\<close> and \<^verbatim>\<open>classproperty\<close> (with its metaclass
  \<^verbatim>\<open>classproperty.Meta\<close>). Their methods are embedded below, one definition per method,
  under the source's names. They only mean something inside Python's attribute protocol
  (\<^verbatim>\<open>object.__getattribute__\<close>, \<^verbatim>\<open>object.__setattr__\<close>, \<^verbatim>\<open>type.__getattribute__\<close>,
  \<^verbatim>\<open>type.__setattr__\<close>), which is embedded as well, after the language reference.

  Exceptions are values of \<open>exn\<close>; a raise is \<open>Inl\<close>. \<open>NotModelled\<close> marks the places
  this development does not cover (attributes of built-in values, calling a class or an
  instance, a dangling reference): it is an outcome of the model, not of Python.
\<close>

datatype exn =
    AssertionError string
  | AttributeError string
  | TypeError string
  | RecursionError
  | NotModelled

text \<open>
  Classes: \<^verbatim>\<open>object\<close>, \<^verbatim>\<open>type\<close>, \<^verbatim>\<open>classproperty.Meta\<close>, the classes of the values that
  are not instances of a user class (\<^verbatim>\<open>int\<close>, \<^verbatim>\<open>function\<close>, ..., by name), and the classes
  the using code defines.
\<close>

datatype cid = C_object | C_type | C_Meta | C_named string | C_user nat

text \<open>
  Values. A function is a reference into a table of function bodies; \<^verbatim>\<open>classmethod(f)\<close>
  and \<^verbatim>\<open>staticmethod(f)\<close> wrap a value; a bound method pairs a callable with its first
  argument. The two descriptors carry the attributes their \<^verbatim>\<open>__init__\<close> sets:
  \<^verbatim>\<open>self.fget\<close> for \<^verbatim>\<open>NonDataProperty\<close>, \<^verbatim>\<open>self.fget\<close> and \<^verbatim>\<open>self.fset\<close> for
  \<^verbatim>\<open>classproperty\<close>.
\<close>

datatype pyval =
    VNone
  | VInt int
  | VStr string
  | VFun nat
  | VClassMethod pyval
  | VStaticMethod pyval
  | VBound pyval pyval
  | VObj nat
  | VClass cid
  | VNonData nondataproperty
  | VClassprop classproperty
and nondataproperty = NonDataProperty (ndp_fget: pyval)
and classproperty = Classproperty (fget: pyval) (fset: pyval)

type_synonym name = string

text \<open>
  A user class has a metaclass, the rest of its method resolution order (the class itself
  comes first and is left out) and its own \<^verbatim>\<open>__dict__\<close>. An instance has its class and
  its own \<^verbatim>\<open>__dict__\<close>. Instances are numbered by their position in \<open>objs\<close>.
\<close>

record pyclass =
  cmeta :: cid
  cbases :: "cid list"
  cdict :: "name \<rightharpoonup> pyval"

record pyobj =
  ocls :: cid
  odict :: "name \<rightharpoonup> pyval"

record world =
  classes :: "nat \<Rightarrow> pyclass"
  objs :: "pyobj list"

type_synonym result = "exn + pyval \<times> world"

text \<open>
  Function bodies. \<open>Prim\<close> is any state transformer; \<open>ReadAttr nm\<close> is
  \<^verbatim>\<open>def f(x): return x.nm\<close> and \<open>WriteAttr nm\<close> is \<^verbatim>\<open>def f(x, v): x.nm = v\<close>, the getter
  and the setter of the class docstring, whose attribute accesses go through the attribute
  protocol again.
\<close>

datatype pyfunc =
    Prim "pyval list \<Rightarrow> world \<Rightarrow> result"
  | ReadAttr name
  | WriteAttr name

type_synonym caller = "pyval \<Rightarrow> pyval list \<Rightarrow> world \<Rightarrow> result"

definition cls_meta :: "world \<Rightarrow> cid \<Rightarrow> cid" where
  "cls_meta w c = (case c of C_user i \<Rightarrow> cmeta (classes w i) | _ \<Rightarrow> C_type)"

definition cls_mro :: "world \<Rightarrow> cid \<Rightarrow> cid list" where
  "cls_mro w c =
     (case c of
        C_object \<Rightarrow> [C_object]
      | C_type \<Rightarrow> [C_type, C_object]
      | C_Meta \<Rightarrow> [C_Meta, C_type, C_object]
      | C_named s \<Rightarrow> [C_named s, C_object]
      | C_user i \<Rightarrow> C_user i # cbases (classes w i))"

text \<open>Only user classes have entries under ordinary (non-special) attribute names.\<close>

definition cls_dict :: "world \<Rightarrow> cid \<Rightarrow> name \<rightharpoonup> pyval" where
  "cls_dict w c = (case c of C_user i \<Rightarrow> cdict (classes w i) | _ \<Rightarrow> Map.empty)"

fun find_in_mro :: "world \<Rightarrow> cid list \<Rightarrow> name \<Rightarrow> pyval option" where
  "find_in_mro w [] nm = None"
| "find_in_mro w (c # cs) nm =
     (case cls_dict w c nm of Some v \<Rightarrow> Some v | None \<Rightarrow> find_in_mro w cs nm)"

text \<open>The lookup of a name along the method resolution order of a class.\<close>

definition type_lookup :: "world \<Rightarrow> cid \<Rightarrow> name \<Rightarrow> pyval option" where
  "type_lookup w c nm = find_in_mro w (cls_mro w c) nm"

text \<open>\<^verbatim>\<open>type(v)\<close>.\<close>

definition py_type :: "world \<Rightarrow> pyval \<Rightarrow> cid" where
  "py_type w v =
     (case v of
        VNone \<Rightarrow> C_named ''NoneType''
      | VInt _ \<Rightarrow> C_named ''int''
      | VStr _ \<Rightarrow> C_named ''str''
      | VFun _ \<Rightarrow> C_named ''function''
      | VClassMethod _ \<Rightarrow> C_named ''classmethod''
      | VStaticMethod _ \<Rightarrow> C_named ''staticmethod''
      | VBound _ _ \<Rightarrow> C_named ''method''
      | VObj o_id \<Rightarrow> (if o_id < length (objs w) then ocls (objs w ! o_id) else C_object)
      | VClass c \<Rightarrow> cls_meta w c
      | VNonData _ \<Rightarrow> C_named ''NonDataProperty''
      | VClassprop _ \<Rightarrow> C_named ''classproperty'')"

text \<open>
  Truth value of a value (\<^verbatim>\<open>not v\<close>, \<^verbatim>\<open>v and ...\<close>): \<^verbatim>\<open>None\<close>, zero and the empty string
  are false; functions, method wrappers, descriptors, classes and instances of classes
  without \<^verbatim>\<open>__bool__\<close> or \<^verbatim>\<open>__len__\<close> are true.
\<close>

definition truthy :: "pyval \<Rightarrow> bool" where
  "truthy v = (case v of VNone \<Rightarrow> False | VInt i \<Rightarrow> i \<noteq> 0 | VStr s \<Rightarrow> s \<noteq> [] | _ \<Rightarrow> True)"

text \<open>
  \<^verbatim>\<open>callable(v)\<close>: functions, bound methods, classes and (from Python 3.10)
  \<^verbatim>\<open>staticmethod\<close> objects; a \<^verbatim>\<open>classmethod\<close> object is not callable, neither is either
  descriptor of this module, nor an instance of a class without \<^verbatim>\<open>__call__\<close>.
\<close>

definition callable :: "pyval \<Rightarrow> bool" where
  "callable v =
     (case v of VFun _ \<Rightarrow> True | VBound _ _ \<Rightarrow> True | VStaticMethod _ \<Rightarrow> True
      | VClass _ \<Rightarrow> True | _ \<Rightarrow> False)"

section \<open>NonDataProperty\<close>

text \<open>
  \<^verbatim>\<open>
  def __init__(self, fget):
      assert fget is not None, "fget cannot be none"
      assert callable(fget), "fget must be callable"
      self.fget = fget
  \<close>
\<close>

definition NonDataProperty_init :: "pyval \<Rightarrow> exn + pyval" where
  "NonDataProperty_init fg =
     (if fg = VNone then Inl (AssertionError ''fget cannot be none'')
      else if \<not> callable fg then Inl (AssertionError ''fget must be callable'')
      else Inr (VNonData (NonDataProperty fg)))"

text \<open>
  \<^verbatim>\<open>
  def __get__(self, obj, objtype=None):
      if obj is None:
          return self
      return self.fget(obj)
  \<close>
  The call of \<^verbatim>\<open>self.fget\<close> is the parameter \<open>callf\<close>.
\<close>

definition NonDataProperty_get ::
  "caller \<Rightarrow> nondataproperty \<Rightarrow> pyval \<Rightarrow> pyval \<Rightarrow> world \<Rightarrow> result" where
  "NonDataProperty_get callf self obj objtype w =
     (if obj = VNone then Inr (VNonData self, w)
      else callf (ndp_fget self) [obj] w)"

section \<open>classproperty\<close>

text \<open>
  \<^verbatim>\<open>
  @classmethod
  def _ensure_method(cls, fn):
      needs_method = not isinstance(fn, (classmethod, staticmethod))
      return classmethod(fn) if needs_method else fn
  \<close>
\<close>

definition ensure_method :: "pyval \<Rightarrow> pyval" where
  "ensure_method fn =
     (let needs_method =
            \<not> (case fn of VClassMethod _ \<Rightarrow> True | VStaticMethod _ \<Rightarrow> True | _ \<Rightarrow> False)
      in if needs_method then VClassMethod fn else fn)"

text \<open>
  \<^verbatim>\<open>
  def setter(self, fset):
      self.fset = self._ensure_method(fset)
      return self
  \<close>
  The descriptor is returned with its \<^verbatim>\<open>fset\<close> replaced.
\<close>

definition setter :: "classproperty \<Rightarrow> pyval \<Rightarrow> classproperty" where
  "setter self fs = Classproperty (fget self) (ensure_method fs)"

text \<open>
  \<^verbatim>\<open>
  def __init__(self, fget, fset=None):
      self.fget = self._ensure_method(fget)
      self.fset = fset
      fset and self.setter(fset)
  \<close>
  Nothing here raises; the result is a sum only to be read beside
  \<open>NonDataProperty_init\<close>.
\<close>

definition classproperty_init :: "pyval \<Rightarrow> pyval \<Rightarrow> exn + pyval" where
  "classproperty_init fg fs =
     (let self = Classproperty (ensure_method fg) fs;
          self = (if truthy fs then setter self fs else self)
      in Inr (VClassprop self))"

text \<open>
  \<open>dget callf d obj ty\<close> is \<^verbatim>\<open>d.__get__(obj, ty)\<close>. For a function, a \<^verbatim>\<open>classmethod\<close> and a
  \<^verbatim>\<open>staticmethod\<close> it is the built-in one, which refuses \<^verbatim>\<open>__get__(None, None)\<close>; for
  the two descriptors of this module it is their own method. Values of other types have
  no \<^verbatim>\<open>__get__\<close>.

  \<^verbatim>\<open>
  def __get__(self, instance, owner=None):
      return self.fget.__get__(None, owner)()
  \<close>
\<close>

fun classproperty_get ::
      "caller \<Rightarrow> classproperty \<Rightarrow> pyval \<Rightarrow> pyval \<Rightarrow> world \<Rightarrow> result"
  and dget :: "caller \<Rightarrow> pyval \<Rightarrow> pyval \<Rightarrow> pyval \<Rightarrow> world \<Rightarrow> result" where
  "classproperty_get callf (Classproperty fg fs) instance owner w =
     (case dget callf fg VNone owner w of
        Inl e \<Rightarrow> Inl e
      | Inr (m, w1) \<Rightarrow> callf m [] w1)"
| "dget callf (VClassprop s) obj ty w = classproperty_get callf s obj ty w"
| "dget callf (VNonData s) obj ty w = NonDataProperty_get callf s obj ty w"
| "dget callf (VFun f) obj ty w =
     (if obj = VNone \<and> ty = VNone then Inl (TypeError ''__get__(None, None) is invalid'')
      else if obj = VNone then Inr (VFun f, w)
      else Inr (VBound (VFun f) obj, w))"
| "dget callf (VClassMethod g) obj ty w =
     (if obj = VNone \<and> ty = VNone then Inl (TypeError ''__get__(None, None) is invalid'')
      else Inr (VBound g (if ty = VNone then VClass (py_type w obj) else ty), w))"
| "dget callf (VStaticMethod g) obj ty w =
     (if obj = VNone \<and> ty = VNone then Inl (TypeError ''__get__(None, None) is invalid'')
      else Inr (g, w))"
| "dget callf v obj ty w = Inl (AttributeError ''__get__'')"

text \<open>
  \<^verbatim>\<open>
  def __set__(self, owner, value):
      if not self.fset:
          raise AttributeError("can't set attribute")
      if type(owner) is not classproperty.Meta:
          owner = type(owner)
      return self.fset.__get__(None, owner)(value)
  \<close>
\<close>

definition classproperty_set ::
  "caller \<Rightarrow> classproperty \<Rightarrow> pyval \<Rightarrow> pyval \<Rightarrow> world \<Rightarrow> result" where
  "classproperty_set callf self owner val w =
     (if \<not> truthy (fset self) then Inl (AttributeError ''can't set attribute'')
      else
        let owner = (if py_type w owner \<noteq> C_Meta then VClass (py_type w owner) else owner)
        in case dget callf (fset self) VNone owner w of
             Inl e \<Rightarrow> Inl e
           | Inr (m, w1) \<Rightarrow> callf m [val] w1)"

text \<open>
  \<^verbatim>\<open>m.__get__(None, owner)(*args)\<close>, the expression both \<^verbatim>\<open>__get__\<close> and \<^verbatim>\<open>__set__\<close> end
  in.
\<close>

definition invoke_bound ::
  "caller \<Rightarrow> pyval \<Rightarrow> pyval \<Rightarrow> pyval list \<Rightarrow> world \<Rightarrow> result" where
  "invoke_bound callf m owner args w =
     (case dget callf m VNone owner w of
        Inl e \<Rightarrow> Inl e
      | Inr (b, w1) \<Rightarrow> callf b args w1)"

section \<open>The attribute protocol\<close>

text \<open>
  Which values define \<^verbatim>\<open>__get__\<close>, and which define \<^verbatim>\<open>__set__\<close> (a data descriptor): of
  the values here only a \<^verbatim>\<open>classproperty\<close> has \<^verbatim>\<open>__set__\<close>.
\<close>

definition has_get :: "pyval \<Rightarrow> bool" where
  "has_get v =
     (case v of VFun _ \<Rightarrow> True | VClassMethod _ \<Rightarrow> True | VStaticMethod _ \<Rightarrow> True
      | VNonData _ \<Rightarrow> True | VClassprop _ \<Rightarrow> True | _ \<Rightarrow> False)"

definition as_classproperty :: "pyval \<Rightarrow> classproperty option" where
  "as_classproperty v = (case v of VClassprop cp \<Rightarrow> Some cp | _ \<Rightarrow> None)"

definition data_descriptor :: "pyval option \<Rightarrow> classproperty option" where
  "data_descriptor a = (case a of None \<Rightarrow> None | Some d \<Rightarrow> as_classproperty d)"

text \<open>The two plain stores: into an instance's own dict, into a user class's own dict.\<close>

definition inst_store :: "world \<Rightarrow> nat \<Rightarrow> name \<Rightarrow> pyval \<Rightarrow> world" where
  "inst_store w o_id nm v =
     w\<lparr>objs := (objs w)[o_id := (objs w ! o_id)\<lparr>odict := (odict (objs w ! o_id))(nm \<mapsto> v)\<rparr>]\<rparr>"

definition cls_store :: "world \<Rightarrow> nat \<Rightarrow> name \<Rightarrow> pyval \<Rightarrow> world" where
  "cls_store w i nm v =
     w\<lparr>classes := (classes w)(i := (classes w i)\<lparr>cdict := (cdict (classes w i))(nm \<mapsto> v)\<rparr>)\<rparr>"

text \<open>
  \<^verbatim>\<open>object.__getattribute__(x, nm)\<close>: a data descriptor found on the type wins, then the
  instance's own dict, then a non-data descriptor or plain value found on the type.
\<close>

definition object_getattribute :: "caller \<Rightarrow> nat \<Rightarrow> name \<Rightarrow> world \<Rightarrow> result" where
  "object_getattribute callf o_id nm w =
     (if length (objs w) \<le> o_id then Inl NotModelled
      else
        let ob = objs w ! o_id; tp = ocls ob; attr = type_lookup w tp nm
        in case data_descriptor attr of
             Some cp \<Rightarrow> dget callf (VClassprop cp) (VObj o_id) (VClass tp) w
           | None \<Rightarrow>
               (case odict ob nm of
                  Some v \<Rightarrow> Inr (v, w)
                | None \<Rightarrow>
                    (case attr of
                       None \<Rightarrow> Inl (AttributeError nm)
                     | Some d \<Rightarrow>
                         if has_get d then dget callf d (VObj o_id) (VClass tp) w
                         else Inr (d, w))))"

text \<open>
  \<^verbatim>\<open>type.__getattribute__(C, nm)\<close>: a data descriptor found on the metaclass wins, then
  the entry found along the class's own resolution order (through its \<^verbatim>\<open>__get__\<close> with no
  instance, when it has one), then whatever the metaclass has.
\<close>

definition type_getattribute :: "caller \<Rightarrow> cid \<Rightarrow> name \<Rightarrow> world \<Rightarrow> result" where
  "type_getattribute callf c nm w =
     (let mt = cls_meta w c; meta_attr = type_lookup w mt nm
      in case data_descriptor meta_attr of
           Some cp \<Rightarrow> dget callf (VClassprop cp) (VClass c) (VClass mt) w
         | None \<Rightarrow>
             (case type_lookup w c nm of
                Some a \<Rightarrow> if has_get a then dget callf a VNone (VClass c) w else Inr (a, w)
              | None \<Rightarrow>
                  (case meta_attr of
                     None \<Rightarrow> Inl (AttributeError nm)
                   | Some d \<Rightarrow>
                       if has_get d then dget callf d (VClass c) (VClass mt) w
                       else Inr (d, w))))"

text \<open>
  \<^verbatim>\<open>object.__setattr__(x, nm, v)\<close>: a data descriptor found on the type takes the write,
  otherwise the value goes into the instance's own dict.
\<close>

definition object_setattr :: "caller \<Rightarrow> nat \<Rightarrow> name \<Rightarrow> pyval \<Rightarrow> world \<Rightarrow> result" where
  "object_setattr callf o_id nm v w =
     (if length (objs w) \<le> o_id then Inl NotModelled
      else
        case data_descriptor (type_lookup w (ocls (objs w ! o_id)) nm) of
             Some cp \<Rightarrow> classproperty_set callf cp (VObj o_id) v w
           | None \<Rightarrow> Inr (VNone, inst_store w o_id nm v))"

text \<open>
  \<^verbatim>\<open>type.__setattr__(C, nm, v)\<close>, the normal assignment on a class: built-in classes are
  immutable; a data descriptor found on the metaclass takes the write; otherwise the
  value goes into the class's own dict, replacing what was there.
\<close>

definition type_setattr :: "caller \<Rightarrow> cid \<Rightarrow> name \<Rightarrow> pyval \<Rightarrow> world \<Rightarrow> result" where
  "type_setattr callf c nm v w =
     (case c of
        C_user i \<Rightarrow>
          (case data_descriptor (type_lookup w (cls_meta w c) nm) of
             Some cp \<Rightarrow> classproperty_set callf cp (VClass c) v w
           | None \<Rightarrow> Inr (VNone, cls_store w i nm v))
      | C_Meta \<Rightarrow> Inl NotModelled
      | _ \<Rightarrow> Inl (TypeError ''cannot set attribute of immutable type''))"

text \<open>
  \<^verbatim>\<open>
  class Meta(type):
      def __setattr__(self, key, value):
          obj = self.__dict__.get(key, None)
          if type(obj) is classproperty:
              return obj.__set__(self, value)
          return super().__setattr__(key, value)
  \<close>
\<close>

definition Meta_setattr :: "caller \<Rightarrow> cid \<Rightarrow> name \<Rightarrow> pyval \<Rightarrow> world \<Rightarrow> result" where
  "Meta_setattr callf self key val w =
     (let obj = (case cls_dict w self key of Some v \<Rightarrow> v | None \<Rightarrow> VNone)
      in case as_classproperty obj of
           Some cp \<Rightarrow> classproperty_set callf cp (VClass self) val w
         | None \<Rightarrow> type_setattr callf self key val w)"

text \<open>
  \<^verbatim>\<open>x.nm\<close> and \<^verbatim>\<open>x.nm = v\<close>. An assignment on a class runs the \<^verbatim>\<open>__setattr__\<close> of its
  metaclass: \<^verbatim>\<open>Meta.__setattr__\<close> when the metaclass is \<^verbatim>\<open>classproperty.Meta\<close> or
  derives from it, \<^verbatim>\<open>type.__setattr__\<close> otherwise.
\<close>

definition getattr :: "caller \<Rightarrow> pyval \<Rightarrow> name \<Rightarrow> world \<Rightarrow> result" where
  "getattr callf x nm w =
     (case x of
        VObj o_id \<Rightarrow> object_getattribute callf o_id nm w
      | VClass c \<Rightarrow> type_getattribute callf c nm w
      | _ \<Rightarrow> Inl NotModelled)"

definition setattr :: "caller \<Rightarrow> pyval \<Rightarrow> name \<Rightarrow> pyval \<Rightarrow> world \<Rightarrow> result" where
  "setattr callf x nm v w =
     (case x of
        VObj o_id \<Rightarrow> object_setattr callf o_id nm v w
      | VClass c \<Rightarrow>
          if C_Meta \<in> set (cls_mro w (cls_meta w c)) then Meta_setattr callf c nm v w
          else type_setattr callf c nm v w
      | _ \<Rightarrow> Inl NotModelled)"

section \<open>Calls\<close>

text \<open>
  One call, given the calls a function body may make itself (\<open>callf\<close>): a function runs
  its body, a bound method passes its first argument on, a \<^verbatim>\<open>staticmethod\<close> object
  calls what it wraps (Python 3.10 and later).
\<close>

fun apply_value ::
  "(nat \<Rightarrow> pyfunc) \<Rightarrow> caller \<Rightarrow> pyval \<Rightarrow> pyval list \<Rightarrow> world \<Rightarrow> result" where
  "apply_value funs callf (VFun i) args w =
     (case funs i of
        Prim p \<Rightarrow> p args w
      | ReadAttr nm \<Rightarrow>
          (case args of
             [x] \<Rightarrow> getattr callf x nm w
           | _ \<Rightarrow> Inl (TypeError ''wrong number of arguments''))
      | WriteAttr nm \<Rightarrow>
          (case args of
             [x, v] \<Rightarrow>
               (case setattr callf x nm v w of
                  Inl e \<Rightarrow> Inl e
                | Inr (r, w1) \<Rightarrow> Inr (VNone, w1))
           | _ \<Rightarrow> Inl (TypeError ''wrong number of arguments'')))"
| "apply_value funs callf (VBound g a) args w = apply_value funs callf g (a # args) w"
| "apply_value funs callf (VStaticMethod g) args w = apply_value funs callf g args w"
| "apply_value funs callf (VClass c) args w = Inl NotModelled"
| "apply_value funs callf (VObj o_id) args w = Inl NotModelled"
| "apply_value funs callf v args w = Inl (TypeError ''object is not callable'')"

text \<open>
  The interpreter's call, bounded in the depth of nested function bodies as Python's is
  by its recursion limit: a getter that reads its own attribute does not return, it raises
  \<^verbatim>\<open>RecursionError\<close>.
\<close>

primrec call :: "(nat \<Rightarrow> pyfunc) \<Rightarrow> nat \<Rightarrow> caller" where
  "call funs 0 = (\<lambda>f args w. Inl RecursionError)"
| "call funs (Suc n) = apply_value funs (call funs n)"



section \<open>The classes of the docstrings\<close>

text \<open>
  The function bodies the docstrings use:
  \<^item> 0: \<^verbatim>\<open>def foo(cls): return cls.val\<close>
  \<^item> 1: \<^verbatim>\<open>def foo(cls, val): cls.val = val\<close>
  \<^item> 2: \<^verbatim>\<open>def foo(self): return 3\<close>
  \<^item> 3: \<^verbatim>\<open>def foo(cls): return 'bar'\<close>
  \<^item> any other: \<^verbatim>\<open>def bar(): return 'bar'\<close>
\<close>

definition doc_funs :: "nat \<Rightarrow> pyfunc" where
  "doc_funs i =
     (if i = 0 then ReadAttr ''val''
      else if i = 1 then WriteAttr ''val''
      else if i = 2 then
        Prim (\<lambda>args w. case args of [x] \<Rightarrow> Inr (VInt 3, w)
                        | _ \<Rightarrow> Inl (TypeError ''wrong number of arguments''))
      else if i = 3 then
        Prim (\<lambda>args w. case args of [x] \<Rightarrow> Inr (VStr ''bar'', w)
                        | _ \<Rightarrow> Inl (TypeError ''wrong number of arguments''))
      else
        Prim (\<lambda>args w. case args of [] \<Rightarrow> Inr (VStr ''bar'', w)
                        | _ \<Rightarrow> Inl (TypeError ''wrong number of arguments'')))"

definition no_class :: pyclass where
  "no_class = \<lparr>cmeta = C_type, cbases = [C_object], cdict = Map.empty\<rparr>"

definition new_obj :: "cid \<Rightarrow> pyobj" where
  "new_obj c = \<lparr>ocls = c, odict = Map.empty\<rparr>"

text \<open>
  \<^verbatim>\<open>
  class X(metaclass=m):
      val = None
      @classproperty
      def foo(cls): return cls.val
      @foo.setter
      def foo(cls, val): cls.val = val
  \<close>
  with its value \<^verbatim>\<open>val\<close> at \<open>v\<close>, and two instances.
\<close>

definition X_foo :: classproperty where
  "X_foo = Classproperty (VClassMethod (VFun 0)) (VClassMethod (VFun 1))"

definition X_world :: "cid \<Rightarrow> pyval \<Rightarrow> world" where
  "X_world m v =
     \<lparr>classes = (\<lambda>i. no_class)
        (0 := \<lparr>cmeta = m, cbases = [C_object],
               cdict = [''foo'' \<mapsto> VClassprop X_foo, ''val'' \<mapsto> v]\<rparr>),
      objs = [new_obj (C_user 0), new_obj (C_user 0)]\<rparr>"

text \<open>
  \<^verbatim>\<open>
  class GetOnly(metaclass=m):
      @classproperty
      def foo(cls): return 'bar'
  \<close>
  with one instance.
\<close>

definition GetOnly_foo :: classproperty where
  "GetOnly_foo = Classproperty (VClassMethod (VFun 3)) VNone"

definition GetOnly_world :: "cid \<Rightarrow> world" where
  "GetOnly_world m =
     \<lparr>classes = (\<lambda>i. no_class)
        (0 := \<lparr>cmeta = m, cbases = [C_object],
               cdict = [''foo'' \<mapsto> VClassprop GetOnly_foo]\<rparr>),
      objs = [new_obj (C_user 0)]\<rparr>"

text \<open>
  \<^verbatim>\<open>
  class X(object):
      @NonDataProperty
      def foo(self): return 3
  \<close>
  with one instance.
\<close>

definition NDP_world :: world where
  "NDP_world =
     \<lparr>classes = (\<lambda>i. no_class)
        (0 := \<lparr>cmeta = C_type, cbases = [C_object],
               cdict = [''foo'' \<mapsto> VNonData (NonDataProperty (VFun 2))]\<rparr>),
      objs = [new_obj (C_user 0)]\<rparr>"

text \<open>
  The class \<^verbatim>\<open>X\<close> again, built with a metaclass that derives from \<^verbatim>\<open>classproperty.Meta\<close>
  (\<^verbatim>\<open>class M(classproperty.Meta): pass\<close>, class 1, its own dict given), with one instance.
\<close>

definition Derived_world :: "(name \<rightharpoonup> pyval) \<Rightarrow> world" where
  "Derived_world d =
     \<lparr>classes = (\<lambda>i. no_class)
        (0 := \<lparr>cmeta = C_user 1, cbases = [C_object],
               cdict = [''foo'' \<mapsto> VClassprop X_foo, ''val'' \<mapsto> VNone]\<rparr>,
         1 := \<lparr>cmeta = C_type, cbases = [C_Meta, C_type, C_object], cdict = d\<rparr>),
      objs = [new_obj (C_user 0)]\<rparr>"

section \<open>Basic facts\<close>

lemmas world_defs = X_world_def X_foo_def GetOnly_world_def GetOnly_foo_def NDP_world_def
  no_class_def new_obj_def inst_store_def cls_store_def

lemmas lookup_defs = type_lookup_def cls_mro_def cls_dict_def cls_meta_def

lemmas proto_defs = getattr_def setattr_def object_getattribute_def type_getattribute_def
  object_setattr_def type_setattr_def Meta_setattr_def classproperty_set_def invoke_bound_def
  data_descriptor_def as_classproperty_def has_get_def truthy_def py_type_def Let_def

text \<open>A bound method and a \<^verbatim>\<open>staticmethod\<close> object cost no depth of their own.\<close>

lemma call_bound: "call funs n (VBound g a) args w = call funs n g (a # args) w"
  by (cases n) simp_all

lemma call_static: "call funs n (VStaticMethod g) args w = call funs n g args w"
  by (cases n) simp_all

lemma classproperty_get_invoke:
  "classproperty_get callf cp inst owner w = invoke_bound callf (fget cp) owner [] w"
  by (cases cp) (simp add: invoke_bound_def)

lemma classproperty_set_invoke:
  "truthy (fset cp) \<Longrightarrow>
   classproperty_set callf cp owner v w =
     invoke_bound callf (fset cp)
       (if py_type w owner \<noteq> C_Meta then VClass (py_type w owner) else owner) [v] w"
  by (simp add: classproperty_set_def invoke_bound_def Let_def)

lemma invoke_bound_classmethod:
  "invoke_bound (call funs n) (VClassMethod g) (VClass c) args w
     = call funs n g (VClass c # args) w"
  by (simp add: invoke_bound_def call_bound)

lemma invoke_bound_staticmethod:
  "invoke_bound (call funs n) (VStaticMethod g) (VClass c) args w = call funs n g args w"
  by (simp add: invoke_bound_def)

lemma data_descriptor_simps:
  "data_descriptor None = None"
  "data_descriptor (Some (VClassprop cp)) = Some cp"
  "data_descriptor (Some (VNonData d)) = None"
  by (simp_all add: data_descriptor_def as_classproperty_def)

text \<open>Lookups along the resolution order read the class table only.\<close>

lemma find_in_mro_classes:
  "classes ws = classes w \<Longrightarrow> find_in_mro ws cs nm = find_in_mro w cs nm"
  by (induction cs) (simp_all add: cls_dict_def split: cid.splits option.splits)

lemma type_lookup_classes:
  assumes "classes ws = classes w"
  shows "type_lookup ws c nm = type_lookup w c nm"
proof -
  have "cls_mro ws c = cls_mro w c"
    using assms by (simp add: cls_mro_def split: cid.splits)
  then show ?thesis
    by (simp add: type_lookup_def find_in_mro_classes [OF assms])
qed

lemma cls_meta_classes: "classes ws = classes w \<Longrightarrow> cls_meta ws c = cls_meta w c"
  by (simp add: cls_meta_def split: cid.splits)


lemma type_lookup_builtin:
  "type_lookup w C_Meta nm = None" "type_lookup w C_type nm = None"
  "type_lookup w C_object nm = None" "type_lookup w (C_named s) nm = None"
  by (simp_all add: type_lookup_def cls_mro_def cls_dict_def)

section \<open>Construction\<close>

text \<open>
  C4 as amended. Constructing a \<^verbatim>\<open>NonDataProperty\<close> fails exactly when the getter is
  \<^verbatim>\<open>None\<close> or not callable, with an assertion error, at construction time. Constructing a
  \<^verbatim>\<open>classproperty\<close> never fails: its \<^verbatim>\<open>__init__\<close> checks nothing and wraps whatever it is
  given, \<^verbatim>\<open>None\<close> included, with \<^verbatim>\<open>classmethod\<close>.
\<close>

theorem construction_failures:
  "(isl (NonDataProperty_init fg) \<longleftrightarrow> fg = VNone \<or> \<not> callable fg)
   \<and> (fg = VNone \<longrightarrow> NonDataProperty_init fg = Inl (AssertionError ''fget cannot be none''))
   \<and> (fg \<noteq> VNone \<and> \<not> callable fg \<longrightarrow>
        NonDataProperty_init fg = Inl (AssertionError ''fget must be callable''))
   \<and> (fg \<noteq> VNone \<and> callable fg \<longrightarrow>
        NonDataProperty_init fg = Inr (VNonData (NonDataProperty fg)))
   \<and> \<not> isl (classproperty_init fg fs)
   \<and> (\<exists>cp. classproperty_init fg fs = Inr (VClassprop cp) \<and> fget cp = ensure_method fg)"
  by (simp add: NonDataProperty_init_def classproperty_init_def setter_def Let_def)

theorem construction_failures_witness:
  "isl (NonDataProperty_init VNone) \<and> isl (NonDataProperty_init (VInt 3))
   \<and> NonDataProperty_init (VFun 2) = Inr (VNonData (NonDataProperty (VFun 2)))
   \<and> \<not> isl (classproperty_init (VInt 3) VNone)"
proof -
  have c: "callable (VFun 2)" "\<not> callable (VInt 3)"
    by (simp_all add: callable_def)
  from construction_failures [of VNone VNone] construction_failures [of "VInt 3" VNone]
    construction_failures [of "VFun 2" VNone] c
  show ?thesis by simp
qed

text \<open>
  C4 as stated fails for \<^verbatim>\<open>classproperty\<close>: \<^verbatim>\<open>classproperty(None)\<close> and
  \<^verbatim>\<open>classproperty(3)\<close> construct a descriptor.
\<close>

theorem classproperty_accepts_None:
  "classproperty_init VNone VNone = Inr (VClassprop (Classproperty (VClassMethod VNone) VNone))
   \<and> classproperty_init (VInt 3) VNone
       = Inr (VClassprop (Classproperty (VClassMethod (VInt 3)) VNone))"
  by (simp add: classproperty_init_def ensure_method_def truthy_def Let_def)

text \<open>The failure comes when the attribute is read: \<^verbatim>\<open>None\<close> is not callable.\<close>

lemma classproperty_of_None_read:
  "classproperty_get (call funs (Suc n)) (Classproperty (VClassMethod VNone) VNone) x
     (VClass c) w = Inl (TypeError ''object is not callable'')"
  by simp

section \<open>NonDataProperty: reads\<close>

text \<open>
  C5. For every \<^verbatim>\<open>NonDataProperty\<close> with getter \<open>f\<close>: \<^verbatim>\<open>__get__\<close> with no instance returns
  the descriptor itself, and with an instance \<open>obj\<close> it calls \<open>f(obj)\<close> and returns its
  result. Through the attribute protocol: a read on the class that holds the descriptor
  returns the descriptor, and a read on an instance (one with no entry of that name in its
  own dict) is the call \<open>f(obj)\<close>.
\<close>

theorem NonDataProperty_read:
  "NonDataProperty_get (call funs n) d VNone ty w = Inr (VNonData d, w)
   \<and> (obj \<noteq> VNone \<longrightarrow>
        NonDataProperty_get (call funs n) d obj ty w = call funs n (ndp_fget d) [obj] w)
   \<and> (type_lookup w c nm = Some (VNonData d) \<and> i < length (objs w) \<and> ocls (objs w ! i) = c
        \<and> odict (objs w ! i) nm = None \<longrightarrow>
        getattr (call funs n) (VObj i) nm w = call funs n (ndp_fget d) [VObj i] w)
   \<and> (type_lookup w c nm = Some (VNonData d)
        \<and> data_descriptor (type_lookup w (cls_meta w c) nm) = None \<longrightarrow>
        getattr (call funs n) (VClass c) nm w = Inr (VNonData d, w))"
  by (simp add: NonDataProperty_get_def getattr_def object_getattribute_def
      type_getattribute_def data_descriptor_simps has_get_def Let_def)

text \<open>The class \<^verbatim>\<open>X\<close> of the docstring: \<^verbatim>\<open>x.foo\<close> is 3, \<^verbatim>\<open>X.foo\<close> is the descriptor.\<close>

theorem NonDataProperty_read_witness:
  "getattr (call doc_funs 1) (VObj 0) ''foo'' NDP_world = Inr (VInt 3, NDP_world)
   \<and> getattr (call doc_funs 1) (VClass (C_user 0)) ''foo'' NDP_world
       = Inr (VNonData (NonDataProperty (VFun 2)), NDP_world)"
proof -
  have lk: "type_lookup NDP_world (C_user 0) ''foo'' = Some (VNonData (NonDataProperty (VFun 2)))"
    by (simp add: lookup_defs world_defs)
  have ob: "0 < length (objs NDP_world)" "ocls (objs NDP_world ! 0) = C_user 0"
    "odict (objs NDP_world ! 0) ''foo'' = None"
    by (simp_all add: world_defs)
  have mt: "data_descriptor (type_lookup NDP_world (cls_meta NDP_world (C_user 0)) ''foo'') = None"
    by (simp add: cls_meta_def NDP_world_def type_lookup_builtin data_descriptor_simps)
  have cl: "call doc_funs 1 (VFun 2) [VObj 0] NDP_world = Inr (VInt 3, NDP_world)"
    by (simp add: doc_funs_def)
  from NonDataProperty_read [of doc_funs 1 "NonDataProperty (VFun 2)" VNone NDP_world VNone
      "C_user 0" "''foo''" 0] lk ob mt cl
  show ?thesis by simp
qed

section \<open>NonDataProperty: a write on an instance\<close>



section \<open>classproperty: reads\<close>

text \<open>
  C7. For every class on which the attribute name resolves to a \<^verbatim>\<open>classproperty\<close>
  descriptor, in every state: a read from an instance of the class and a read from the
  class itself are both \<^verbatim>\<open>fget.__get__(None, cls)()\<close>, the getter bound to that class
  (a \<^verbatim>\<open>classmethod\<close> getter is called with the class, a \<^verbatim>\<open>staticmethod\<close> getter with
  nothing). The instance's own dict is not consulted, whatever it holds. (For the read
  from the class, the metaclass has no data descriptor of that name.)
\<close>

theorem classproperty_read:
  assumes "type_lookup w c nm = Some (VClassprop cp)"
  shows "(i < length (objs w) \<and> ocls (objs w ! i) = c \<longrightarrow>
            getattr (call funs n) (VObj i) nm w
              = invoke_bound (call funs n) (fget cp) (VClass c) [] w)
       \<and> (data_descriptor (type_lookup w (cls_meta w c) nm) = None \<longrightarrow>
            getattr (call funs n) (VClass c) nm w
              = invoke_bound (call funs n) (fget cp) (VClass c) [] w)
       \<and> (\<forall>g. fget cp = VClassMethod g \<longrightarrow>
            invoke_bound (call funs n) (fget cp) (VClass c) [] w = call funs n g [VClass c] w)
       \<and> (\<forall>g. fget cp = VStaticMethod g \<longrightarrow>
            invoke_bound (call funs n) (fget cp) (VClass c) [] w = call funs n g [] w)"
  using assms
  by (simp add: getattr_def object_getattribute_def type_getattribute_def
      data_descriptor_simps has_get_def Let_def classproperty_get_invoke
      invoke_bound_classmethod invoke_bound_staticmethod)

text \<open>
  The class \<^verbatim>\<open>X\<close> of the docstring with \<^verbatim>\<open>val\<close> at 3, and an instance whose own dict
  holds 9 under \<^verbatim>\<open>foo\<close>: both reads give 3.
\<close>

theorem classproperty_read_witness:
  "odict (objs (inst_store (X_world C_Meta (VInt 3)) 0 ''foo'' (VInt 9)) ! 0) ''foo'' = Some (VInt 9)
   \<and> getattr (call doc_funs 1) (VObj 0) ''foo'' (inst_store (X_world C_Meta (VInt 3)) 0 ''foo'' (VInt 9))
       = Inr (VInt 3, inst_store (X_world C_Meta (VInt 3)) 0 ''foo'' (VInt 9))
   \<and> getattr (call doc_funs 1) (VClass (C_user 0)) ''foo''
         (inst_store (X_world C_Meta (VInt 3)) 0 ''foo'' (VInt 9))
       = Inr (VInt 3, inst_store (X_world C_Meta (VInt 3)) 0 ''foo'' (VInt 9))"
proof -
  let ?W = "inst_store (X_world C_Meta (VInt 3)) 0 ''foo'' (VInt 9)"
  have lk: "type_lookup ?W (C_user 0) ''foo'' = Some (VClassprop X_foo)"
    by (simp add: lookup_defs world_defs)
  have ob: "0 < length (objs ?W) \<and> ocls (objs ?W ! 0) = C_user 0"
    by (simp add: world_defs)
  have mt: "data_descriptor (type_lookup ?W (cls_meta ?W (C_user 0)) ''foo'') = None"
    by (simp add: lookup_defs world_defs data_descriptor_def)
  have fg: "fget X_foo = VClassMethod (VFun 0)"
    by (simp add: X_foo_def)
  have cl: "call doc_funs 1 (VFun 0) [VClass (C_user 0)] ?W = Inr (VInt 3, ?W)"
    by (simp add: doc_funs_def proto_defs lookup_defs world_defs)
  have od: "odict (objs ?W ! 0) ''foo'' = Some (VInt 9)"
    by (simp add: world_defs)
  from classproperty_read [OF lk, where i = 0 and funs = doc_funs and n = 1] ob mt fg cl od
  show ?thesis by simp
qed

section \<open>classproperty under the metaclass: a write on the class, a read on an instance\<close>

lemma plain_not_classproperty: "\<not> has_get V \<Longrightarrow> as_classproperty V = None"
  by (cases V) (simp_all add: has_get_def as_classproperty_def)





text \<open>
  The metaclass has to be \<^verbatim>\<open>classproperty.Meta\<close> itself. Under a metaclass \<^verbatim>\<open>M\<close> deriving
  from it, \<^verbatim>\<open>__set__\<close> finds \<^verbatim>\<open>type(X)\<close> is not \<^verbatim>\<open>Meta\<close> and calls the setter with \<^verbatim>\<open>M\<close>:
  \<^verbatim>\<open>X.foo = 3\<close> stores 3 on the metaclass, and \<^verbatim>\<open>x.foo\<close> still reads \<^verbatim>\<open>X.val\<close>, which is
  \<^verbatim>\<open>None\<close>.
\<close>

lemma derived_metaclass_write:
  "setattr (call doc_funs 1) (VClass (C_user 0)) ''foo'' (VInt 3) (Derived_world Map.empty)
     = Inr (VNone, Derived_world [''val'' \<mapsto> VInt 3])"
  "getattr (call doc_funs 1) (VObj 0) ''foo'' (Derived_world [''val'' \<mapsto> VInt 3])
     = Inr (VNone, Derived_world [''val'' \<mapsto> VInt 3])"
  by (simp_all add: doc_funs_def proto_defs lookup_defs world_defs Derived_world_def)

section \<open>classproperty without the metaclass: a write on an instance\<close>

text \<open>
  C2 as amended. Once the attribute name resolves on the class to a plain value \<open>a\<close>
  instead of the descriptor (without the metaclass an assignment on the class object puts
  one there: the legacy sequence of the docstring), a write of \<open>V\<close> on an instance stores
  \<open>V\<close> in that instance's own dict: its reads return \<open>V\<close>, the class table is unchanged,
  the class's own attribute still reads \<open>a\<close>, and every other instance of the class reads
  what it read before.
\<close>

theorem legacy_instance_write_shadows:
  assumes "i < length (objs w)" and "ocls (objs w ! i) = c"
    and "type_lookup w c nm = Some a" and "\<not> has_get a"
  shows "setattr (call funs n) (VObj i) nm V w = Inr (VNone, inst_store w i nm V)
       \<and> getattr (call funs n) (VObj i) nm (inst_store w i nm V) = Inr (V, inst_store w i nm V)
       \<and> classes (inst_store w i nm V) = classes w
       \<and> (data_descriptor (type_lookup w (cls_meta w c) nm) = None \<longrightarrow>
            getattr (call funs n) (VClass c) nm w = Inr (a, w)
            \<and> getattr (call funs n) (VClass c) nm (inst_store w i nm V)
                = Inr (a, inst_store w i nm V))
       \<and> (j < length (objs w) \<and> j \<noteq> i \<and> ocls (objs w ! j) = c \<longrightarrow>
            map_sum id fst (getattr (call funs n) (VObj j) nm (inst_store w i nm V))
              = map_sum id fst (getattr (call funs n) (VObj j) nm w))"
proof -
  let ?w1 = "inst_store w i nm V"
  have cl: "classes ?w1 = classes w"
    by (simp add: inst_store_def)
  have dd: "data_descriptor (Some a) = None"
    using assms(4) by (cases a) (simp_all add: data_descriptor_def as_classproperty_def has_get_def)
  have lk1: "type_lookup ?w1 c nm = Some a"
    using assms(3) by (simp add: type_lookup_classes [OF cl])
  have wr: "setattr (call funs n) (VObj i) nm V w = Inr (VNone, ?w1)"
    using assms(1,2,3) dd by (simp add: setattr_def object_setattr_def)
  have ob1: "i < length (objs ?w1)" "ocls (objs ?w1 ! i) = c" "odict (objs ?w1 ! i) nm = Some V"
    using assms(1,2) by (simp_all add: inst_store_def)
  have rd: "getattr (call funs n) (VObj i) nm ?w1 = Inr (V, ?w1)"
    using lk1 ob1 dd by (simp add: getattr_def object_getattribute_def Let_def)
  have cls: "getattr (call funs n) (VClass c) nm ws = Inr (a, ws)"
    if "classes ws = classes w" and "data_descriptor (type_lookup w (cls_meta w c) nm) = None"
    for ws
    using that assms(3,4)
    by (simp add: getattr_def type_getattribute_def Let_def
        type_lookup_classes [OF that(1)] cls_meta_classes [OF that(1)])
  have other: "map_sum id fst (getattr (call funs n) (VObj j) nm ?w1)
                 = map_sum id fst (getattr (call funs n) (VObj j) nm w)"
    if "j < length (objs w)" and "j \<noteq> i" and "ocls (objs w ! j) = c"
  proof -
    have "objs ?w1 ! j = objs w ! j" "length (objs ?w1) = length (objs w)"
      using that(1,2) by (simp_all add: inst_store_def)
    then show ?thesis
      using that assms(3,4) lk1 dd
      by (simp add: getattr_def object_getattribute_def Let_def split: option.splits)
  qed
  from wr rd cl cls [of w] cls [OF cl] other show ?thesis by simp
qed

text \<open>
  The legacy sequence of the docstring, on \<^verbatim>\<open>class X:\<close> without the metaclass: \<^verbatim>\<open>X.foo = 4\<close>
  replaces the descriptor; then \<^verbatim>\<open>x.foo = 5\<close> gives \<^verbatim>\<open>x.foo == 5\<close>, \<^verbatim>\<open>X.foo == 4\<close> and, for the
  other instance, \<^verbatim>\<open>y.foo == 4\<close>.
\<close>

theorem legacy_instance_write_shadows_witness:
  "setattr (call doc_funs 1) (VClass (C_user 0)) ''foo'' (VInt 4)
       (cls_store (X_world C_type VNone) 0 ''foo'' (VInt 3))
     = Inr (VNone, cls_store (X_world C_type VNone) 0 ''foo'' (VInt 4))
   \<and> setattr (call doc_funs 1) (VObj 0) ''foo'' (VInt 5)
         (cls_store (X_world C_type VNone) 0 ''foo'' (VInt 4))
       = Inr (VNone, inst_store (cls_store (X_world C_type VNone) 0 ''foo'' (VInt 4)) 0 ''foo'' (VInt 5))
   \<and> getattr (call doc_funs 1) (VObj 0) ''foo''
         (inst_store (cls_store (X_world C_type VNone) 0 ''foo'' (VInt 4)) 0 ''foo'' (VInt 5))
       = Inr (VInt 5, inst_store (cls_store (X_world C_type VNone) 0 ''foo'' (VInt 4)) 0 ''foo'' (VInt 5))
   \<and> getattr (call doc_funs 1) (VClass (C_user 0)) ''foo''
         (inst_store (cls_store (X_world C_type VNone) 0 ''foo'' (VInt 4)) 0 ''foo'' (VInt 5))
       = Inr (VInt 4, inst_store (cls_store (X_world C_type VNone) 0 ''foo'' (VInt 4)) 0 ''foo'' (VInt 5))
   \<and> map_sum id fst (getattr (call doc_funs 1) (VObj 1) ''foo''
         (inst_store (cls_store (X_world C_type VNone) 0 ''foo'' (VInt 4)) 0 ''foo'' (VInt 5)))
       = Inr (VInt 4)"
proof -
  let ?W = "cls_store (X_world C_type VNone) 0 ''foo'' (VInt 4)"
  have repl: "setattr (call doc_funs 1) (VClass (C_user 0)) ''foo'' (VInt 4)
                (cls_store (X_world C_type VNone) 0 ''foo'' (VInt 3)) = Inr (VNone, ?W)"
    by (simp add: proto_defs lookup_defs world_defs)
  have ob: "0 < length (objs ?W)" "ocls (objs ?W ! 0) = C_user 0"
    by (simp_all add: world_defs)
  have lk: "type_lookup ?W (C_user 0) ''foo'' = Some (VInt 4)"
    by (simp add: lookup_defs world_defs)
  have pl: "\<not> has_get (VInt 4)"
    by (simp add: has_get_def)
  have mt: "data_descriptor (type_lookup ?W (cls_meta ?W (C_user 0)) ''foo'') = None"
    by (simp add: lookup_defs world_defs data_descriptor_def)
  have oth: "1 < length (objs ?W) \<and> (1::nat) \<noteq> 0 \<and> ocls (objs ?W ! 1) = C_user 0"
    by (simp add: world_defs)
  have y: "map_sum id fst (getattr (call doc_funs 1) (VObj 1) ''foo'' ?W) = Inr (VInt 4)"
    by (simp add: proto_defs lookup_defs world_defs)
  from legacy_instance_write_shadows [OF ob lk pl, where funs = doc_funs and n = 1
      and V = "VInt 5" and j = 1] repl mt oth y
  show ?thesis by simp
qed

text \<open>
  C2 as stated fails while the descriptor is still in the class dict. On \<^verbatim>\<open>class X:\<close>
  without the metaclass, with \<^verbatim>\<open>X.val\<close> at 4: \<^verbatim>\<open>X.foo\<close> and \<^verbatim>\<open>y.foo\<close> read 4; \<^verbatim>\<open>x.foo = 5\<close>
  calls the setter with \<^verbatim>\<open>X\<close>, no instance dict changes, and \<^verbatim>\<open>X.foo\<close> and \<^verbatim>\<open>y.foo\<close> read 5
  afterwards.
\<close>

theorem legacy_instance_write_changes_class:
  "getattr (call doc_funs 1) (VClass (C_user 0)) ''foo'' (X_world C_type (VInt 4))
     = Inr (VInt 4, X_world C_type (VInt 4))
   \<and> getattr (call doc_funs 1) (VObj 1) ''foo'' (X_world C_type (VInt 4))
       = Inr (VInt 4, X_world C_type (VInt 4))
   \<and> setattr (call doc_funs 1) (VObj 0) ''foo'' (VInt 5) (X_world C_type (VInt 4))
       = Inr (VNone, X_world C_type (VInt 5))
   \<and> getattr (call doc_funs 1) (VClass (C_user 0)) ''foo'' (X_world C_type (VInt 5))
       = Inr (VInt 5, X_world C_type (VInt 5))
   \<and> getattr (call doc_funs 1) (VObj 1) ''foo'' (X_world C_type (VInt 5))
       = Inr (VInt 5, X_world C_type (VInt 5))"
proof -
  have rd4: "getattr (call doc_funs 1) (VClass (C_user 0)) ''foo'' (X_world C_type (VInt 4))
               = Inr (VInt 4, X_world C_type (VInt 4))"
    "getattr (call doc_funs 1) (VObj 1) ''foo'' (X_world C_type (VInt 4))
       = Inr (VInt 4, X_world C_type (VInt 4))"
    by (simp_all add: doc_funs_def proto_defs lookup_defs world_defs)
  have wr: "setattr (call doc_funs 1) (VObj 0) ''foo'' (VInt 5) (X_world C_type (VInt 4))
              = Inr (VNone, X_world C_type (VInt 5))"
    by (simp add: doc_funs_def proto_defs lookup_defs world_defs)
  have rd5: "getattr (call doc_funs 1) (VClass (C_user 0)) ''foo'' (X_world C_type (VInt 5))
               = Inr (VInt 5, X_world C_type (VInt 5))"
    "getattr (call doc_funs 1) (VObj 1) ''foo'' (X_world C_type (VInt 5))
       = Inr (VInt 5, X_world C_type (VInt 5))"
    by (simp_all add: doc_funs_def proto_defs lookup_defs world_defs)
  from rd4 wr rd5 show ?thesis by simp
qed

section \<open>classproperty: writes without a setter\<close>

text \<open>
  C3 as amended. For a \<^verbatim>\<open>classproperty\<close> constructed with a getter and no setter, every
  write that reaches the descriptor fails with \<^verbatim>\<open>AttributeError\<close>: \<^verbatim>\<open>__set__\<close> itself for
  any owner; an assignment on an instance of any class on which the name resolves to the
  descriptor (with or without the metaclass); and an assignment on the class object when
  the class is built with \<^verbatim>\<open>classproperty.Meta\<close> and holds the descriptor in its own dict.
\<close>

theorem getter_only_write_fails:
  assumes "classproperty_init fg VNone = Inr (VClassprop cp)"
  shows "classproperty_set (call funs n) cp owner v w
           = Inl (AttributeError ''can't set attribute'')
       \<and> (i < length (objs w) \<and> type_lookup w (ocls (objs w ! i)) nm = Some (VClassprop cp) \<longrightarrow>
            setattr (call funs n) (VObj i) nm v w = Inl (AttributeError ''can't set attribute''))
       \<and> (C_Meta \<in> set (cls_mro w (cls_meta w c)) \<and> cls_dict w c nm = Some (VClassprop cp) \<longrightarrow>
            setattr (call funs n) (VClass c) nm v w = Inl (AttributeError ''can't set attribute''))"
proof -
  from assms have fs: "fset cp = VNone"
    by (auto simp add: classproperty_init_def truthy_def Let_def)
  then have s: "\<And>x. classproperty_set (call funs n) cp x v w
                  = Inl (AttributeError ''can't set attribute'')"
    by (simp add: classproperty_set_def truthy_def)
  show ?thesis
    by (simp add: s setattr_def object_setattr_def Meta_setattr_def data_descriptor_simps
        as_classproperty_def)
qed

text \<open>
  \<^verbatim>\<open>GetOnly\<close> of the docstring, built with the metaclass: \<^verbatim>\<open>GetOnly.foo = 3\<close> and
  \<^verbatim>\<open>GetOnly().foo = 3\<close> both raise; without the metaclass the instance write raises too.
\<close>

theorem getter_only_write_fails_witness:
  "setattr (call doc_funs 1) (VClass (C_user 0)) ''foo'' (VInt 3) (GetOnly_world C_Meta)
     = Inl (AttributeError ''can't set attribute'')
   \<and> setattr (call doc_funs 1) (VObj 0) ''foo'' (VInt 3) (GetOnly_world C_Meta)
     = Inl (AttributeError ''can't set attribute'')
   \<and> setattr (call doc_funs 1) (VObj 0) ''foo'' (VInt 3) (GetOnly_world C_type)
     = Inl (AttributeError ''can't set attribute'')"
proof -
  have b: "classproperty_init (VFun 3) VNone = Inr (VClassprop GetOnly_foo)"
    by (simp add: classproperty_init_def ensure_method_def truthy_def GetOnly_foo_def Let_def)
  have h: "0 < length (objs (GetOnly_world m))"
    "type_lookup (GetOnly_world m) (ocls (objs (GetOnly_world m) ! 0)) ''foo''
       = Some (VClassprop GetOnly_foo)"
    "cls_dict (GetOnly_world m) (C_user 0) ''foo'' = Some (VClassprop GetOnly_foo)" for m
    by (simp_all add: lookup_defs GetOnly_world_def new_obj_def)
  have mt: "C_Meta \<in> set (cls_mro (GetOnly_world C_Meta) (cls_meta (GetOnly_world C_Meta) (C_user 0)))"
    by (simp add: lookup_defs GetOnly_world_def)
  from getter_only_write_fails [OF b, where w = "GetOnly_world C_Meta" and i = 0
      and nm = "''foo''" and c = "C_user 0" and funs = doc_funs and n = 1 and v = "VInt 3"]
    getter_only_write_fails [OF b, where w = "GetOnly_world C_type" and i = 0
      and nm = "''foo''" and funs = doc_funs and n = 1 and v = "VInt 3"]
    h mt
  show ?thesis by simp
qed

text \<open>
  C3 as stated fails on the class object when the class is not built with the metaclass:
  for \<^verbatim>\<open>class GetOnly:\<close> with the getter-only \<^verbatim>\<open>foo\<close>, \<^verbatim>\<open>GetOnly.foo = 3\<close> raises nothing; it
  replaces the descriptor in the class dict, and \<^verbatim>\<open>GetOnly.foo\<close> is 3 afterwards.
\<close>

theorem getter_only_class_write_legacy:
  "classproperty_init (VFun 3) VNone = Inr (VClassprop GetOnly_foo)
   \<and> setattr (call doc_funs 1) (VClass (C_user 0)) ''foo'' (VInt 3) (GetOnly_world C_type)
       = Inr (VNone, cls_store (GetOnly_world C_type) 0 ''foo'' (VInt 3))
   \<and> getattr (call doc_funs 1) (VClass (C_user 0)) ''foo''
         (cls_store (GetOnly_world C_type) 0 ''foo'' (VInt 3))
       = Inr (VInt 3, cls_store (GetOnly_world C_type) 0 ''foo'' (VInt 3))"
  by (simp add: classproperty_init_def ensure_method_def GetOnly_foo_def GetOnly_world_def
      lookup_defs proto_defs cls_store_def no_class_def)

section \<open>classproperty.Meta: what is intercepted\<close>

text \<open>
  C8. Under the metaclass \<^verbatim>\<open>classproperty.Meta\<close> (or one deriving from it), an assignment
  on the class object under a name whose entry in the class's own dict is not a
  \<^verbatim>\<open>classproperty\<close> is exactly the normal assignment \<^verbatim>\<open>type.__setattr__\<close>; an assignment
  under a name whose entry is a \<^verbatim>\<open>classproperty\<close> is that descriptor's \<^verbatim>\<open>__set__\<close> with
  the class.
\<close>

theorem Meta_setattr_passes_through:
  assumes "C_Meta \<in> set (cls_mro w (cls_meta w c))"
  shows "((\<forall>cp. cls_dict w c key \<noteq> Some (VClassprop cp)) \<longrightarrow>
            setattr (call funs n) (VClass c) key v w = type_setattr (call funs n) c key v w)
       \<and> (\<forall>cp. cls_dict w c key = Some (VClassprop cp) \<longrightarrow>
            setattr (call funs n) (VClass c) key v w
              = classproperty_set (call funs n) cp (VClass c) v w)"
proof -
  have a: "as_classproperty (case cls_dict w c key of None \<Rightarrow> VNone | Some x \<Rightarrow> x) = None"
    if "\<forall>cp. cls_dict w c key \<noteq> Some (VClassprop cp)"
  proof (cases "cls_dict w c key")
    case None
    then show ?thesis by (simp add: as_classproperty_def)
  next
    case (Some x)
    with that show ?thesis by (cases x) (simp_all add: as_classproperty_def)
  qed
  show ?thesis
    using assms a by (simp add: setattr_def Meta_setattr_def as_classproperty_def)
qed

text \<open>
  The class \<^verbatim>\<open>X\<close> of the docstring: \<^verbatim>\<open>X.val = 3\<close> is a plain store into the class dict,
  \<^verbatim>\<open>X.foo = 3\<close> goes to \<^verbatim>\<open>__set__\<close>.
\<close>

theorem Meta_setattr_passes_through_witness:
  "setattr (call doc_funs 1) (VClass (C_user 0)) ''val'' (VInt 3) (X_world C_Meta VNone)
     = Inr (VNone, X_world C_Meta (VInt 3))
   \<and> setattr (call doc_funs 1) (VClass (C_user 0)) ''foo'' (VInt 3) (X_world C_Meta VNone)
     = classproperty_set (call doc_funs 1) X_foo (VClass (C_user 0)) (VInt 3) (X_world C_Meta VNone)"
proof -
  let ?W = "X_world C_Meta VNone"
  have mt: "C_Meta \<in> set (cls_mro ?W (cls_meta ?W (C_user 0)))"
    by (simp add: lookup_defs world_defs)
  have plain: "\<forall>cp. cls_dict ?W (C_user 0) ''val'' \<noteq> Some (VClassprop cp)"
    by (simp add: lookup_defs world_defs)
  have held: "cls_dict ?W (C_user 0) ''foo'' = Some (VClassprop X_foo)"
    by (simp add: lookup_defs world_defs)
  have ts: "type_setattr (call doc_funs 1) (C_user 0) ''val'' (VInt 3) ?W
              = Inr (VNone, X_world C_Meta (VInt 3))"
    by (simp add: type_setattr_def data_descriptor_def lookup_defs world_defs)
  from Meta_setattr_passes_through [OF mt, where key = "''val''" and funs = doc_funs and n = 1
      and v = "VInt 3"]
    Meta_setattr_passes_through [OF mt, where key = "''foo''" and funs = doc_funs and n = 1
      and v = "VInt 3"] plain held ts
  show ?thesis by simp
qed

section \<open>classproperty: a write on an instance\<close>

text \<open>
  C10. While the attribute name resolves to a \<^verbatim>\<open>classproperty\<close> with a setter on the
  class of an instance, with or without the metaclass, an assignment on the instance is
  \<^verbatim>\<open>fset.__get__(None, type(instance))(value)\<close>: the setter is called with the class of
  the instance. With the setter of the docstring (\<^verbatim>\<open>cls.val = val\<close>, \<^verbatim>\<open>val\<close> a plain
  attribute) the write lands in the dict of the class, and no instance dict changes.
\<close>

theorem instance_write_reaches_class:
  assumes "i < length (objs w)" and "ocls (objs w ! i) = c" and "c \<noteq> C_Meta"
    and "type_lookup w c nm = Some (VClassprop cp)" and "truthy (fset cp)"
  shows "setattr (call funs n) (VObj i) nm v w
           = invoke_bound (call funs n) (fset cp) (VClass c) [v] w
       \<and> (fset cp = VClassMethod s \<longrightarrow>
            setattr (call funs n) (VObj i) nm v w = call funs n s [VClass c, v] w)
       \<and> (fset cp = VClassMethod (VFun k) \<and> funs k = WriteAttr val \<and> c = C_user j
              \<and> (\<forall>cp'. cls_dict w c val \<noteq> Some (VClassprop cp'))
              \<and> data_descriptor (type_lookup w (cls_meta w c) val) = None \<and> 0 < n \<longrightarrow>
            setattr (call funs n) (VObj i) nm v w = Inr (VNone, cls_store w j val v)
            \<and> objs (cls_store w j val v) = objs w)"
proof -
  have ty: "py_type w (VObj i) = c"
    using assms(1,2) by (simp add: py_type_def)
  have a: "setattr (call funs n) (VObj i) nm v w
             = invoke_bound (call funs n) (fset cp) (VClass c) [v] w"
    using assms ty
    by (simp add: setattr_def object_setattr_def data_descriptor_simps classproperty_set_invoke)
  have b: "setattr (call funs n) (VObj i) nm v w = Inr (VNone, cls_store w j val v)"
    if h: "fset cp = VClassMethod (VFun k)" "funs k = WriteAttr val" "c = C_user j"
      "\<forall>cp'. cls_dict w c val \<noteq> Some (VClassprop cp')"
      "data_descriptor (type_lookup w (cls_meta w c) val) = None" "0 < n"
  proof -
    from h(6) obtain m where n: "n = Suc m"
      by (cases n) simp_all
    have p: "as_classproperty (case cls_dict w c val of None \<Rightarrow> VNone | Some x \<Rightarrow> x) = None"
    proof (cases "cls_dict w c val")
      case None
      then show ?thesis by (simp add: as_classproperty_def)
    next
      case (Some x)
      with h(4) show ?thesis by (cases x) (simp_all add: as_classproperty_def)
    qed
    have inner: "setattr (call funs m) (VClass c) val v w = Inr (VNone, cls_store w j val v)"
      using h(3,5) p by (simp add: setattr_def Meta_setattr_def type_setattr_def)
    have "setattr (call funs n) (VObj i) nm v w = call funs n (VFun k) [VClass c, v] w"
      using h(1) by (simp add: a invoke_bound_classmethod)
    also have "\<dots> = Inr (VNone, cls_store w j val v)"
      using h(2) inner by (simp add: n)
    finally show ?thesis .
  qed
  have c: "objs (cls_store w j val v) = objs w"
    by (simp add: cls_store_def)
  have d: "setattr (call funs n) (VObj i) nm v w = call funs n s [VClass c, v] w"
    if "fset cp = VClassMethod s"
    using that by (simp add: a invoke_bound_classmethod)
  from a b c d show ?thesis by blast
qed

text \<open>
  The class \<^verbatim>\<open>X\<close> of the docstring, with the metaclass and without it, the descriptor in
  place: \<^verbatim>\<open>x.foo = 5\<close> leaves \<^verbatim>\<open>X.val\<close> at 5 and the instances as they were.
\<close>

theorem instance_write_reaches_class_witness:
  "setattr (call doc_funs 1) (VObj 0) ''foo'' (VInt 5) (X_world C_Meta VNone)
     = Inr (VNone, X_world C_Meta (VInt 5))
   \<and> setattr (call doc_funs 1) (VObj 0) ''foo'' (VInt 5) (X_world C_type (VInt 4))
     = Inr (VNone, X_world C_type (VInt 5))"
proof -
  have h: "0 < length (objs (X_world m u))" "ocls (objs (X_world m u) ! 0) = C_user 0"
    "C_user 0 \<noteq> C_Meta"
    "type_lookup (X_world m u) (C_user 0) ''foo'' = Some (VClassprop X_foo)"
    "truthy (fset X_foo)" for m u
    by (simp_all add: lookup_defs world_defs truthy_def)
  have s: "fset X_foo = VClassMethod (VFun 1)" "doc_funs 1 = WriteAttr ''val''"
    by (simp_all add: X_foo_def doc_funs_def)
  have p: "\<forall>cp'. cls_dict (X_world m VNone) (C_user 0) ''val'' \<noteq> Some (VClassprop cp')"
    "\<forall>cp'. cls_dict (X_world m (VInt 4)) (C_user 0) ''val'' \<noteq> Some (VClassprop cp')" for m
    by (simp_all add: lookup_defs world_defs)
  have q: "data_descriptor (type_lookup (X_world C_Meta u) (cls_meta (X_world C_Meta u) (C_user 0)) ''val'')
             = None"
    "data_descriptor (type_lookup (X_world C_type u) (cls_meta (X_world C_type u) (C_user 0)) ''val'')
             = None" for u
    by (simp_all add: cls_meta_def X_world_def type_lookup_builtin data_descriptor_simps)
  have e: "cls_store (X_world m u) 0 ''val'' (VInt 5) = X_world m (VInt 5)" for m u
    by (simp add: world_defs)
  have 1: "setattr (call doc_funs 1) (VObj 0) ''foo'' (VInt 5) (X_world C_Meta VNone)
             = Inr (VNone, X_world C_Meta (VInt 5))"
  proof -
    have hyp: "fset X_foo = VClassMethod (VFun 1) \<and> doc_funs 1 = WriteAttr ''val''
        \<and> C_user 0 = C_user 0
        \<and> (\<forall>cp'. cls_dict (X_world C_Meta VNone) (C_user 0) ''val'' \<noteq> Some (VClassprop cp'))
        \<and> data_descriptor (type_lookup (X_world C_Meta VNone)
              (cls_meta (X_world C_Meta VNone) (C_user 0)) ''val'') = None \<and> (0::nat) < 1"
      using s p(1) q(1) by simp
    from instance_write_reaches_class [OF h(1) [of C_Meta VNone] h(2) [of C_Meta VNone] h(3)
        h(4) [of C_Meta VNone] h(5), where funs = doc_funs and n = 1
        and v = "VInt 5" and k = 1 and val = "''val''" and j = 0,
        THEN conjunct2, THEN conjunct2, THEN mp, OF hyp]
    show ?thesis by (simp only: e)
  qed
  have 2: "setattr (call doc_funs 1) (VObj 0) ''foo'' (VInt 5) (X_world C_type (VInt 4))
             = Inr (VNone, X_world C_type (VInt 5))"
  proof -
    have hyp: "fset X_foo = VClassMethod (VFun 1) \<and> doc_funs 1 = WriteAttr ''val''
        \<and> C_user 0 = C_user 0
        \<and> (\<forall>cp'. cls_dict (X_world C_type (VInt 4)) (C_user 0) ''val'' \<noteq> Some (VClassprop cp'))
        \<and> data_descriptor (type_lookup (X_world C_type (VInt 4))
              (cls_meta (X_world C_type (VInt 4)) (C_user 0)) ''val'') = None \<and> (0::nat) < 1"
      using s p(2) q(2) by simp
    from instance_write_reaches_class [OF h(1) [of C_type "VInt 4"] h(2) [of C_type "VInt 4"] h(3)
        h(4) [of C_type "VInt 4"] h(5), where funs = doc_funs and n = 1
        and v = "VInt 5" and k = 1 and val = "''val''" and j = 0,
        THEN conjunct2, THEN conjunct2, THEN mp, OF hyp]
    show ?thesis by (simp only: e)
  qed
  from 1 2 show ?thesis by simp
qed

section \<open>classproperty: wrapped getters\<close>

text \<open>
  C9. A \<^verbatim>\<open>classproperty\<close> built from \<^verbatim>\<open>classmethod(f)\<close> is the same descriptor as one
  built from the plain function \<open>f\<close>: \<^verbatim>\<open>_ensure_method\<close> wraps the plain function and keeps
  the wrapped one. A \<^verbatim>\<open>classproperty\<close> built from \<^verbatim>\<open>staticmethod(g0)\<close> reads, from the class
  or from an instance, as the one built from a plain function \<open>f\<close> that computes with the
  class as argument what \<open>g0\<close> computes with none.
\<close>

theorem wrapped_getter_equivalent:
  "classproperty_init (VClassMethod (VFun f)) fs = classproperty_init (VFun f) fs
   \<and> ((\<forall>ws. call funs n g0 [] ws = call funs n (VFun f) [VClass c] ws)
        \<and> classproperty_init (VStaticMethod g0) fs = Inr (VClassprop a)
        \<and> classproperty_init (VFun f) fs = Inr (VClassprop b) \<longrightarrow>
        classproperty_get (call funs n) a inst (VClass c) w
          = classproperty_get (call funs n) b inst (VClass c) w)"
proof -
  have 1: "classproperty_init (VClassMethod (VFun f)) fs = classproperty_init (VFun f) fs"
    by (simp add: classproperty_init_def ensure_method_def setter_def Let_def)
  have 2: "classproperty_get (call funs n) a inst (VClass c) w
             = classproperty_get (call funs n) b inst (VClass c) w"
    if eq: "\<forall>ws. call funs n g0 [] ws = call funs n (VFun f) [VClass c] ws"
      and a: "classproperty_init (VStaticMethod g0) fs = Inr (VClassprop a)"
      and b: "classproperty_init (VFun f) fs = Inr (VClassprop b)"
  proof -
    from a have fa: "fget a = VStaticMethod g0"
      by (auto simp add: classproperty_init_def ensure_method_def setter_def Let_def
          split: if_splits)
    from b have fb: "fget b = VClassMethod (VFun f)"
      by (auto simp add: classproperty_init_def ensure_method_def setter_def Let_def
          split: if_splits)
    show ?thesis
      using eq
      by (simp add: classproperty_get_invoke fa fb invoke_bound_classmethod
          invoke_bound_staticmethod)
  qed
  from 1 2 show ?thesis by blast
qed

text \<open>
  \<^verbatim>\<open>Static\<close> of the docstring: \<^verbatim>\<open>bar\<close>, a \<^verbatim>\<open>staticmethod\<close> returning \<^verbatim>\<open>'bar'\<close>, reads as the
  plain \<^verbatim>\<open>def foo(cls): return 'bar'\<close> does.
\<close>

theorem wrapped_getter_equivalent_witness:
  "classproperty_get (call doc_funs 1) (Classproperty (VStaticMethod (VFun 4)) VNone) VNone
     (VClass (C_user 0)) (GetOnly_world C_Meta)
   = classproperty_get (call doc_funs 1) (Classproperty (VClassMethod (VFun 3)) VNone) VNone
       (VClass (C_user 0)) (GetOnly_world C_Meta)
   \<and> classproperty_get (call doc_funs 1) (Classproperty (VStaticMethod (VFun 4)) VNone) VNone
       (VClass (C_user 0)) (GetOnly_world C_Meta)
     = Inr (VStr ''bar'', GetOnly_world C_Meta)"
proof -
  have eq: "\<forall>ws. call doc_funs 1 (VFun 4) [] ws = call doc_funs 1 (VFun 3) [VClass (C_user 0)] ws"
    by (simp add: doc_funs_def)
  have a: "classproperty_init (VStaticMethod (VFun 4)) VNone
             = Inr (VClassprop (Classproperty (VStaticMethod (VFun 4)) VNone))"
    by (simp add: classproperty_init_def ensure_method_def truthy_def Let_def)
  have b: "classproperty_init (VFun 3) VNone
             = Inr (VClassprop (Classproperty (VClassMethod (VFun 3)) VNone))"
    by (simp add: classproperty_init_def ensure_method_def truthy_def Let_def)
  have r: "classproperty_get (call doc_funs 1) (Classproperty (VStaticMethod (VFun 4)) VNone)
             VNone (VClass (C_user 0)) (GetOnly_world C_Meta)
           = Inr (VStr ''bar'', GetOnly_world C_Meta)"
    by (simp add: doc_funs_def)
  from wrapped_getter_equivalent [of 3 VNone doc_funs 1 "VFun 4" "C_user 0"
      "Classproperty (VStaticMethod (VFun 4)) VNone" "Classproperty (VClassMethod (VFun 3)) VNone"
      VNone "GetOnly_world C_Meta"] eq a b r
  show ?thesis by simp
qed

end
